theory Spec2Isabelle
  imports Main
begin

section \<open>Data model\<close>

text \<open>
  The Sequelize models \<open>StandQueue\<close> (models/standQueue.js) and \<open>QueueEntry\<close>
  (models/queueEntry.js). Primary keys are UUIDv4 values drawn by the store; they are
  modelled as natural numbers, a new row receiving a number larger than every key of its
  table. Dates are natural numbers.

  The associations \<open>QueueEntry.belongsTo(User)\<close> and \<open>QueueEntry.belongsTo(StandQueue)\<close>
  are declared without a \<open>foreignKey\<close>: Sequelize names the foreign-key attributes after
  the target models, \<open>UserId\<close> and \<open>StandQueueId\<close>. The route handlers write and read
  \<open>userId\<close> and \<open>standQueueId\<close>, which are not attributes of the model.
\<close>

datatype stand_status = Open | Full | Closed

text \<open>
  The column \<open>QueueEntry.status\<close> is declared with the values Waiting, Active, Completed
  and Cancelled. The leave handler writes the string \<open>'Left'\<close>: a store that does not
  enforce the enumeration keeps it, as a fifth value of the column; a store that enforces
  it refuses the write.
\<close>

datatype entry_status = Waiting | Active | Completed | Cancelled | Left

record StandQueue =
  sq_id :: nat
  enterpriseId :: string
  sq_status :: stand_status
  currentParticipants :: int
  totalProcessed :: int

record QueueEntry =
  qe_id :: nat
  qe_status :: entry_status
  joinedAt :: nat
  startedAt :: "nat option"
  completedAt :: "nat option"
  UserId :: "nat option"
  StandQueueId :: "nat option"

record db =
  stands :: "StandQueue list"
  entries :: "QueueEntry list"

definition empty_db :: db where
  "empty_db = \<lparr>stands = [], entries = []\<rparr>"

text \<open>
  The database configuration (config/database.js) is not part of the source. What the
  handlers' behaviour depends on is a parameter of the model: whether the database
  distinguishes the column name \<open>userId\<close> of the handlers' queries from the column
  \<open>UserId\<close> of the table (then the query fails), and whether it enforces the declared
  values of an enumeration column.
\<close>

record dialect =
  case_sensitive_columns :: bool
  enforces_enum :: bool

text \<open>A store as SQLite (neither), and one as PostgreSQL (both).\<close>

definition lenient_store :: dialect where
  "lenient_store = \<lparr>case_sensitive_columns = False, enforces_enum = False\<rparr>"

definition strict_store :: dialect where
  "strict_store = \<lparr>case_sensitive_columns = True, enforces_enum = True\<rparr>"

text \<open>What a handler's \<open>catch\<close> block receives.\<close>

datatype exn = SequelizeValidationError | SequelizeDatabaseError | TypeError

text \<open>
  The HTTP responses of the queue routes: \<open>res.json\<close> of a success flag, of an entry or
  of a stand, and the error statuses with their \<open>error\<close> text.
\<close>

datatype response =
    Ok200
  | OkEntry QueueEntry
  | OkStand StandQueue
  | Status400 string
  | Status401 string
  | Status403 string
  | Status404 string
  | Status500 exn

section \<open>Store operations\<close>

definition fresh_id :: "nat list \<Rightarrow> nat" where
  "fresh_id ks = Suc (foldr max ks 0)"

text \<open>\<open>StandQueue.findByPk\<close>: called with \<open>undefined\<close> (\<open>None\<close>) it returns null.\<close>

definition StandQueue_findByPk :: "nat option \<Rightarrow> db \<Rightarrow> StandQueue option" where
  "StandQueue_findByPk k s =
     (case k of None \<Rightarrow> None | Some i \<Rightarrow> find (\<lambda>q. sq_id q = i) (stands s))"

text \<open>\<open>StandQueue.findOne({where: {enterpriseId}})\<close> and \<open>QueueEntry.findByPk\<close>.\<close>

definition StandQueue_findOne :: "string \<Rightarrow> db \<Rightarrow> StandQueue option" where
  "StandQueue_findOne e s = find (\<lambda>q. enterpriseId q = e) (stands s)"

definition QueueEntry_findByPk :: "nat \<Rightarrow> db \<Rightarrow> QueueEntry option" where
  "QueueEntry_findByPk k s = find (\<lambda>x. qe_id x = k) (entries s)"

text \<open>
  The JavaScript property \<open>entry.standQueueId\<close> that the complete and uncomplete
  handlers read: an instance of \<open>QueueEntry\<close> has the attribute \<open>StandQueueId\<close> and no
  property of this name, so the read gives \<open>undefined\<close>.
\<close>

definition standQueueId :: "QueueEntry \<Rightarrow> nat option" where
  "standQueueId entry = None"

text \<open>
  The validators of \<open>StandQueue.currentParticipants\<close>: \<open>validate: {min: 0, max: 4}\<close>.
  Sequelize runs them on every \<open>create\<close> and \<open>update\<close> of a stand and throws when
  one fails, before anything is written.
\<close>

definition validate_currentParticipants :: "int \<Rightarrow> bool" where
  "validate_currentParticipants n \<longleftrightarrow> 0 \<le> n \<and> n \<le> 4"

text \<open>\<open>instance.update(...)\<close> on a stand: the row with the instance's key takes the
  instance's new field values, unless validation throws.\<close>

definition StandQueue_update :: "StandQueue \<Rightarrow> db \<Rightarrow> exn + db" where
  "StandQueue_update q s =
     (if validate_currentParticipants (currentParticipants q)
      then Inr (s\<lparr>stands := map (\<lambda>r. if sq_id r = sq_id q then q else r) (stands s)\<rparr>)
      else Inl SequelizeValidationError)"

definition StandQueue_create :: "string \<Rightarrow> stand_status \<Rightarrow> int \<Rightarrow> db \<Rightarrow> exn + StandQueue \<times> db" where
  "StandQueue_create e st n s =
     (if validate_currentParticipants n
      then (let q = \<lparr>sq_id = fresh_id (map sq_id (stands s)), enterpriseId = e,
                      sq_status = st, currentParticipants = n, totalProcessed = 0\<rparr>
            in Inr (q, s\<lparr>stands := stands s @ [q]\<rparr>))
      else Inl SequelizeValidationError)"

text \<open>\<open>StandQueue.findOrCreate({where: {enterpriseId}, defaults: {status: 'Open',
  currentParticipants: 0}})\<close>.\<close>

definition StandQueue_findOrCreate :: "string \<Rightarrow> db \<Rightarrow> StandQueue \<times> db" where
  "StandQueue_findOrCreate e s =
     (case StandQueue_findOne e s of
        Some q \<Rightarrow> (q, s)
      | None \<Rightarrow>
          (let q = \<lparr>sq_id = fresh_id (map sq_id (stands s)), enterpriseId = e,
                    sq_status = Open, currentParticipants = 0, totalProcessed = 0\<rparr>
           in (q, s\<lparr>stands := stands s @ [q]\<rparr>)))"

definition QueueEntry_update :: "QueueEntry \<Rightarrow> db \<Rightarrow> db" where
  "QueueEntry_update x s =
     s\<lparr>entries := map (\<lambda>y. if qe_id y = qe_id x then x else y) (entries s)\<rparr>"

text \<open>
  \<open>QueueEntry.create({userId, standQueueId, status})\<close>. The values given for \<open>userId\<close>
  and \<open>standQueueId\<close> (the arguments \<open>u\<close> and \<open>k\<close>) name no attribute of the model and
  are dropped: the row is written with \<open>UserId\<close> and \<open>StandQueueId\<close> null. \<open>joinedAt\<close>
  defaults to the current time.
\<close>

definition QueueEntry_create :: "nat \<Rightarrow> nat \<Rightarrow> nat \<Rightarrow> entry_status \<Rightarrow> db \<Rightarrow> QueueEntry \<times> db" where
  "QueueEntry_create now u k st s =
     (let x = \<lparr>qe_id = fresh_id (map qe_id (entries s)), qe_status = st, joinedAt = now,
               startedAt = None, completedAt = None, UserId = None, StandQueueId = None\<rparr>
      in (x, s\<lparr>entries := entries s @ [x]\<rparr>))"

definition holds_slot :: "QueueEntry \<Rightarrow> bool" where
  "holds_slot x \<longleftrightarrow> qe_status x = Waiting \<or> qe_status x = Active"

section \<open>Route handlers of routes/queues.routes.js\<close>

text \<open>
  The handlers run behind \<open>authMiddleware\<close> and \<open>checkRole\<close> (section ``Users, sessions
  and roles''); here they are functions of the key \<open>u\<close> of \<open>req.user\<close>.

  \<open>POST /api/queues/stand\<close>. The body's \<open>status\<close> and \<open>currentParticipants\<close> are a stand
  status and an integer, as the route's schema declares them. Fields absent from the
  body are \<open>None\<close>: on \<open>update\<close> they are left as they are, on \<open>create\<close> they take the
  column default.
\<close>

definition post_stand :: "string \<Rightarrow> stand_status option \<Rightarrow> int option \<Rightarrow> db \<Rightarrow> response \<times> db" where
  "post_stand e st n s =
     (case StandQueue_findOne e s of
        Some q \<Rightarrow>
          (let q' = q\<lparr>sq_status := (case st of Some v \<Rightarrow> v | None \<Rightarrow> sq_status q),
                      currentParticipants := (case n of Some v \<Rightarrow> v | None \<Rightarrow> currentParticipants q)\<rparr>
           in case StandQueue_update q' s of
                Inl ex \<Rightarrow> (Status500 ex, s)
              | Inr s' \<Rightarrow> (OkStand q', s'))
      | None \<Rightarrow>
          (case StandQueue_create e (case st of Some v \<Rightarrow> v | None \<Rightarrow> Open)
                  (case n of Some v \<Rightarrow> v | None \<Rightarrow> 0) s of
             Inl ex \<Rightarrow> (Status500 ex, s)
           | Inr (q, s') \<Rightarrow> (OkStand q, s')))"

text \<open>
  \<open>QueueEntry.count({where: {userId, status: {[Op.in]: ['Waiting', 'Active']}}})\<close>. The
  query names the column \<open>userId\<close>: where column names are case-sensitive it fails; elsewhere
  it counts the rows whose \<open>UserId\<close> is the user.
\<close>

definition activeQueues :: "dialect \<Rightarrow> nat \<Rightarrow> db \<Rightarrow> exn + int" where
  "activeQueues d u s =
     (if case_sensitive_columns d then Inl SequelizeDatabaseError
      else Inr (int (length (filter (\<lambda>x. UserId x = Some u \<and> holds_slot x) (entries s)))))"

text \<open>\<open>POST /api/queues/join\<close>. The entry is created with the column default
  \<open>Waiting\<close>; the stand is not written.\<close>

definition queues_join :: "dialect \<Rightarrow> nat \<Rightarrow> nat \<Rightarrow> string \<Rightarrow> db \<Rightarrow> response \<times> db" where
  "queues_join d now u e s =
     (case activeQueues d u s of
        Inl ex \<Rightarrow> (Status500 ex, s)
      | Inr n \<Rightarrow>
          if n \<ge> 2 then (Status400 ''You can only be in 2 queues at a time'', s)
          else case StandQueue_findOne e s of
                 None \<Rightarrow> (Status400 ''This stand queue is not available'', s)
               | Some standQueue \<Rightarrow>
                   if sq_status standQueue = Closed
                   then (Status400 ''This stand queue is not available'', s)
                   else if sq_status standQueue = Full \<and> currentParticipants standQueue \<ge> 4
                   then (Status400 ''This stand queue is full'', s)
                   else (let (queueEntry, s') = QueueEntry_create now u (sq_id standQueue) Waiting s
                         in (OkEntry queueEntry, s')))"

text \<open>\<open>POST /api/queues/:queueId/complete\<close>. The entry is written before the stand;
  an exception thrown at the stand update leaves the entry written.\<close>

definition complete :: "nat \<Rightarrow> nat \<Rightarrow> db \<Rightarrow> response \<times> db" where
  "complete now k s =
     (case QueueEntry_findByPk k s of
        None \<Rightarrow> (Status404 ''Queue entry not found'', s)
      | Some entry \<Rightarrow>
          (let standQueue = StandQueue_findByPk (standQueueId entry) s;
               s1 = QueueEntry_update (entry\<lparr>qe_status := Completed, completedAt := Some now\<rparr>) s
           in case standQueue of
                None \<Rightarrow> (Status500 TypeError, s1)
              | Some q \<Rightarrow>
                  (case StandQueue_update
                          (q\<lparr>currentParticipants := max 0 (currentParticipants q - 1),
                             totalProcessed := totalProcessed q + 1\<rparr>) s1 of
                     Inl ex \<Rightarrow> (Status500 ex, s1)
                   | Inr s2 \<Rightarrow> (Ok200, s2))))"

text \<open>\<open>POST /api/queues/:queueId/uncomplete\<close>.\<close>

definition uncomplete :: "nat \<Rightarrow> db \<Rightarrow> response \<times> db" where
  "uncomplete k s =
     (case QueueEntry_findByPk k s of
        None \<Rightarrow> (Status404 ''Queue entry not found'', s)
      | Some entry \<Rightarrow>
          (let standQueue = StandQueue_findByPk (standQueueId entry) s;
               s1 = QueueEntry_update (entry\<lparr>qe_status := Active, completedAt := None\<rparr>) s
           in case standQueue of
                None \<Rightarrow> (Status500 TypeError, s1)
              | Some q \<Rightarrow>
                  (case StandQueue_update
                          (q\<lparr>currentParticipants := currentParticipants q + 1,
                             totalProcessed := max 0 (totalProcessed q - 1)\<rparr>) s1 of
                     Inl ex \<Rightarrow> (Status500 ex, s1)
                   | Inr s2 \<Rightarrow> (Ok200, s2))))"

section \<open>Route handlers of routes/enterprise.queue.routes.js\<close>

text \<open>\<open>QueueEntry.findOne({where: {userId, status: 'Active'}})\<close>: as the count above, it
  fails where column names are case-sensitive.\<close>

definition existingEntry :: "dialect \<Rightarrow> nat \<Rightarrow> db \<Rightarrow> exn + QueueEntry option" where
  "existingEntry d u s =
     (if case_sensitive_columns d then Inl SequelizeDatabaseError
      else Inr (find (\<lambda>x. UserId x = Some u \<and> qe_status x = Active) (entries s)))"

text \<open>\<open>POST /api/enterprise/queue/:enterpriseId/join\<close>.\<close>

definition enterprise_join :: "dialect \<Rightarrow> nat \<Rightarrow> nat \<Rightarrow> string \<Rightarrow> db \<Rightarrow> response \<times> db" where
  "enterprise_join d now u e s =
     (case existingEntry d u s of
        Inl ex \<Rightarrow> (Status500 ex, s)
      | Inr (Some entry) \<Rightarrow> (Status400 ''You are already in an active queue'', s)
      | Inr None \<Rightarrow>
          (let (standQueue, s1) = StandQueue_findOrCreate e s
           in if currentParticipants standQueue \<ge> 2
              then (Status400 ''Queue is full (maximum 2 concurrent participants)'', s1)
              else (let (queueEntry, s2) = QueueEntry_create now u (sq_id standQueue) Active s1
                    in case StandQueue_update
                              (standQueue\<lparr>currentParticipants := currentParticipants standQueue + 1\<rparr>) s2 of
                         Inl ex \<Rightarrow> (Status500 ex, s2)
                       | Inr s3 \<Rightarrow> (OkEntry queueEntry, s3))))"

text \<open>The \<open>include: [{model: StandQueue, where: {enterpriseId}}]\<close> of the leave handler's
  query, an inner join on the entry's \<open>StandQueueId\<close>: the entry's stand exists and
  belongs to the enterprise.\<close>

definition on_stand_of :: "string \<Rightarrow> db \<Rightarrow> QueueEntry \<Rightarrow> bool" where
  "on_stand_of e s x =
     (case StandQueue_findByPk (StandQueueId x) s of
        None \<Rightarrow> False
      | Some q \<Rightarrow> enterpriseId q = e)"

text \<open>\<open>POST /api/enterprise/queue/:enterpriseId/leave\<close>. The query names the column
  \<open>userId\<close>; the update writes the status \<open>'Left'\<close>.\<close>

definition enterprise_leave :: "dialect \<Rightarrow> nat \<Rightarrow> string \<Rightarrow> db \<Rightarrow> response \<times> db" where
  "enterprise_leave d u e s =
     (if case_sensitive_columns d then (Status500 SequelizeDatabaseError, s)
      else case find (\<lambda>x. UserId x = Some u \<and> qe_status x = Active \<and> on_stand_of e s x)
                  (entries s) of
        None \<Rightarrow> (Status404 ''You are not in this queue'', s)
      | Some queueEntry \<Rightarrow>
          if enforces_enum d then (Status500 SequelizeDatabaseError, s)
          else
          (let s1 = QueueEntry_update (queueEntry\<lparr>qe_status := Left\<rparr>) s
           in case StandQueue_findByPk (StandQueueId queueEntry) s of
                None \<Rightarrow> (Status500 TypeError, s1)
              | Some q \<Rightarrow>
                  (case StandQueue_update
                          (q\<lparr>currentParticipants := max 0 (currentParticipants q - 1)\<rparr>) s1 of
                     Inl ex \<Rightarrow> (Status500 ex, s1)
                   | Inr s2 \<Rightarrow> (Ok200, s2))))"

section \<open>Observations on a store\<close>

definition succeeded :: "response \<Rightarrow> bool" where
  "succeeded r = (case r of Ok200 \<Rightarrow> True | OkEntry x \<Rightarrow> True | OkStand q \<Rightarrow> True
                  | Status400 m \<Rightarrow> False | Status401 m \<Rightarrow> False | Status403 m \<Rightarrow> False
                  | Status404 m \<Rightarrow> False | Status500 ex \<Rightarrow> False)"

text \<open>The number of entries of a stand that hold a slot (status Waiting or Active).\<close>

definition occupancy :: "nat \<Rightarrow> db \<Rightarrow> int" where
  "occupancy k s =
     int (length (filter (\<lambda>x. StandQueueId x = Some k \<and> holds_slot x) (entries s)))"

definition occupancy_invariant :: "db \<Rightarrow> bool" where
  "occupancy_invariant s \<longleftrightarrow>
     list_all (\<lambda>q. currentParticipants q = occupancy (sq_id q) s) (stands s)"

text \<open>The largest number of participants the \<open>StandQueue\<close> model admits on a stand: the
  \<open>max\<close> of the validators of \<open>currentParticipants\<close>. The model has no other
  capacity column.\<close>

definition capacity :: int where
  "capacity = 4"

text \<open>The bound of the join handler of enterprise.queue.routes.js
  (``maximum 2 concurrent participants'').\<close>

definition enterprise_join_limit :: int where
  "enterprise_join_limit = 2"

text \<open>Stores whose stands satisfy the validators and have a \<open>totalProcessed\<close> that is
  not negative.\<close>

definition wf_db :: "db \<Rightarrow> bool" where
  "wf_db s \<longleftrightarrow>
     list_all (\<lambda>q. validate_currentParticipants (currentParticipants q) \<and> 0 \<le> totalProcessed q)
       (stands s)"

text \<open>Stores none of whose entries records a user or a stand.\<close>

definition unowned :: "db \<Rightarrow> bool" where
  "unowned s \<longleftrightarrow> list_all (\<lambda>x. UserId x = None \<and> StandQueueId x = None) (entries s)"

text \<open>
  The stores that sequences of calls of the queue handlers produce from the empty store,
  on a database of dialect \<open>d\<close>. The callers are not restricted: the middleware in front
  of the handlers only removes calls, so every store the server reaches is among these.
\<close>

inductive reachable :: "dialect \<Rightarrow> db \<Rightarrow> bool" for d :: dialect where
  r_init: "reachable d empty_db"
| r_post_stand: "reachable d s \<Longrightarrow> reachable d (snd (post_stand e st n s))"
| r_queues_join: "reachable d s \<Longrightarrow> reachable d (snd (queues_join d now u e s))"
| r_complete: "reachable d s \<Longrightarrow> reachable d (snd (complete now k s))"
| r_uncomplete: "reachable d s \<Longrightarrow> reachable d (snd (uncomplete k s))"
| r_enterprise_join: "reachable d s \<Longrightarrow> reachable d (snd (enterprise_join d now u e s))"
| r_enterprise_leave: "reachable d s \<Longrightarrow> reachable d (snd (enterprise_leave d u e s))"

section \<open>Users, sessions and roles\<close>

text \<open>
  The \<open>User\<close> model (models/user.js); \<open>role\<close> is the string the handlers compare.
\<close>

record User =
  u_id :: nat
  username :: string
  passwordHash :: string
  salt :: string
  role :: string

text \<open>
  The \<open>Session\<close> model (models/session.js) declares the attribute \<open>userId\<close>;
  \<open>Session.belongsTo(User)\<close>, declared without a \<open>foreignKey\<close>, adds the attribute
  \<open>UserId\<close>, the one the association joins on.
\<close>

record Session =
  s_id :: nat
  sess_userId :: nat
  sess_UserId :: "nat option"
  expiresAt :: nat

record auth_db =
  users :: "User list"
  sessions :: "Session list"

definition empty_auth_db :: auth_db where
  "empty_auth_db = \<lparr>users = [], sessions = []\<rparr>"

text \<open>
  The responses of the authentication and enterprise routes. \<open>Auth500\<close> is a status 500
  whose text is the message of an error thrown by the runtime or the library.
\<close>

datatype auth_response =
    Registered nat
  | LoggedIn nat
  | LoggedOut
  | RoleUpdated
  | EnterpriseCreated nat
  | AuthStatus nat string
  | Auth500

text \<open>
  \<open>Auth.hashPassword\<close> and \<open>Auth.verifyPassword\<close> of apis/auth.js. The key derivation
  (PBKDF2 with SHA-512) is the parameter \<open>kdf\<close>, the random bytes of the salt the
  parameter \<open>rnd\<close>.
\<close>

definition Auth_hashPassword :: "(string \<Rightarrow> string \<Rightarrow> string) \<Rightarrow> string \<Rightarrow> string \<Rightarrow> string \<times> string" where
  "Auth_hashPassword kdf rnd password = (kdf password rnd, rnd)"

definition Auth_verifyPassword :: "(string \<Rightarrow> string \<Rightarrow> string) \<Rightarrow> string \<Rightarrow> string \<Rightarrow> string \<Rightarrow> bool" where
  "Auth_verifyPassword kdf password hash slt \<longleftrightarrow> hash = kdf password slt"

text \<open>\<open>Auth.register(username, password, role)\<close>; \<open>Inl\<close> is the message of the error
  it throws.\<close>

definition Auth_register :: "(string \<Rightarrow> string \<Rightarrow> string) \<Rightarrow> string \<Rightarrow> string \<Rightarrow> string \<Rightarrow> string \<Rightarrow> auth_db \<Rightarrow> string + nat \<times> auth_db" where
  "Auth_register kdf rnd uname password r st =
     (case find (\<lambda>u. username u = uname) (users st) of
        Some existingUser \<Rightarrow> Inl ''Username already exists''
      | None \<Rightarrow>
          (let (hash, slt) = Auth_hashPassword kdf rnd password;
               user = \<lparr>u_id = fresh_id (map u_id (users st)), username = uname,
                       passwordHash = hash, salt = slt, role = r\<rparr>
           in Inr (u_id user, st\<lparr>users := users st @ [user]\<rparr>)))"

text \<open>\<open>Auth.login(username, password)\<close>: the expired sessions are destroyed and a session
  is created with \<open>userId\<close> the user's key; nothing writes its \<open>UserId\<close>.\<close>

definition Auth_login :: "(string \<Rightarrow> string \<Rightarrow> string) \<Rightarrow> nat \<Rightarrow> string \<Rightarrow> string \<Rightarrow> auth_db \<Rightarrow> string + Session \<times> auth_db" where
  "Auth_login kdf now uname password st =
     (case find (\<lambda>u. username u = uname) (users st) of
        None \<Rightarrow> Inl ''Invalid username or password''
      | Some user \<Rightarrow>
          if \<not> Auth_verifyPassword kdf password (passwordHash user) (salt user)
          then Inl ''Invalid username or password''
          else (let session = \<lparr>s_id = fresh_id (map s_id (sessions st)),
                                sess_userId = u_id user, sess_UserId = None,
                                expiresAt = now + 86400000\<rparr>
                in Inr (session,
                        st\<lparr>sessions := filter (\<lambda>x. \<not> expiresAt x < now) (sessions st) @ [session]\<rparr>)))"

text \<open>\<open>Auth.logout(sessionId)\<close> and \<open>Auth.changeUserRole(userId, newRole)\<close>.\<close>

definition Auth_logout :: "nat \<Rightarrow> auth_db \<Rightarrow> auth_db" where
  "Auth_logout sid st = st\<lparr>sessions := filter (\<lambda>x. s_id x \<noteq> sid) (sessions st)\<rparr>"

definition Auth_changeUserRole :: "nat \<Rightarrow> string \<Rightarrow> auth_db \<Rightarrow> string + auth_db" where
  "Auth_changeUserRole i newRole st =
     (case find (\<lambda>u. u_id u = i) (users st) of
        None \<Rightarrow> Inl ''User not found''
      | Some user \<Rightarrow>
          Inr (st\<lparr>users := map (\<lambda>u. if u_id u = i then user\<lparr>role := newRole\<rparr> else u) (users st)\<rparr>))"

text \<open>
  \<open>authMiddleware\<close> of apis/authMiddleware.js. \<open>cookie\<close> is the value of the
  \<open>sessionId\<close> cookie, if the request has one. The session is read with
  \<open>include: User\<close>, a left join on the session's \<open>UserId\<close>; \<open>req.user\<close> becomes
  \<open>session.User\<close>, which is null when the join finds no user, and the next handler is
  called all the same. \<open>Inl\<close> is the text of a 401 response. (An error thrown by the
  query is answered 401 as well; the queries of the model do not throw.)
\<close>

definition authMiddleware :: "nat \<Rightarrow> nat option \<Rightarrow> auth_db \<Rightarrow> (string + User option) \<times> auth_db" where
  "authMiddleware now cookie st =
     (case cookie of
        None \<Rightarrow> (Inl ''No session provided'', st)
      | Some sessionId \<Rightarrow>
          (case find (\<lambda>x. s_id x = sessionId) (sessions st) of
             None \<Rightarrow> (Inl ''Invalid session'', st)
           | Some session \<Rightarrow>
               if expiresAt session < now
               then (Inl ''Session expired'',
                     st\<lparr>sessions := filter (\<lambda>x. s_id x \<noteq> s_id session) (sessions st)\<rparr>)
               else (Inr (case sess_UserId session of
                            None \<Rightarrow> None
                          | Some i \<Rightarrow> find (\<lambda>u. u_id u = i) (users st)), st)))"

text \<open>
  \<open>checkRole\<close> of middleware/checkRole.js, which guards the queue routes: \<open>None\<close> is the
  call of the next handler. A role given as a string is the list of that one role.
\<close>

definition checkRole :: "string list \<Rightarrow> User option \<Rightarrow> response option" where
  "checkRole allowedRoles req_user =
     (case req_user of
        None \<Rightarrow> Some (Status401 ''Unauthorized'')
      | Some user \<Rightarrow>
          if role user \<in> set allowedRoles then None
          else Some (Status403 ''Forbidden: Insufficient permissions''))"

text \<open>A queue route: \<open>authMiddleware\<close>, \<open>checkRole\<close>, then the handler with the key
  of \<open>req.user\<close>.\<close>

definition queue_route :: "string list \<Rightarrow> (nat \<Rightarrow> db \<Rightarrow> response \<times> db) \<Rightarrow> nat \<Rightarrow> nat option \<Rightarrow> auth_db \<Rightarrow> db \<Rightarrow> response \<times> auth_db \<times> db" where
  "queue_route allowedRoles handler now cookie st s =
     (case authMiddleware now cookie st of
        (Inl msg, st') \<Rightarrow> (Status401 msg, st', s)
      | (Inr req_user, st') \<Rightarrow>
          (case checkRole allowedRoles req_user of
             Some r \<Rightarrow> (r, st', s)
           | None \<Rightarrow>
               (case req_user of
                  None \<Rightarrow> (Status401 ''Unauthorized'', st', s)
                | Some user \<Rightarrow> (let (r, s') = handler (u_id user) s in (r, st', s')))))"

text \<open>\<open>POST /api/auth/register\<close>. The handler reads \<open>username\<close> and \<open>password\<close> from
  the body; \<open>client_role\<close> is a \<open>role\<close> field the client may have put there.\<close>

definition register_route :: "(string \<Rightarrow> string \<Rightarrow> string) \<Rightarrow> string \<Rightarrow> string \<Rightarrow> string \<Rightarrow> string option \<Rightarrow> auth_db \<Rightarrow> auth_response \<times> auth_db" where
  "register_route kdf rnd uname password client_role st =
     (let fixed_role = ''Participant''
      in case Auth_register kdf rnd uname password fixed_role st of
           Inl msg \<Rightarrow> (AuthStatus 400 msg, st)
         | Inr (newId, st') \<Rightarrow> (Registered newId, st'))"

text \<open>\<open>POST /api/auth/login\<close>.\<close>

definition login_route :: "(string \<Rightarrow> string \<Rightarrow> string) \<Rightarrow> nat \<Rightarrow> string \<Rightarrow> string \<Rightarrow> auth_db \<Rightarrow> auth_response \<times> auth_db" where
  "login_route kdf now uname password st =
     (case Auth_login kdf now uname password st of
        Inl msg \<Rightarrow> (AuthStatus 401 msg, st)
      | Inr (session, st') \<Rightarrow> (LoggedIn (s_id session), st'))"

text \<open>\<open>POST /api/auth/logout\<close>: the session destroyed is the one named by the
  \<open>authorization\<close> header; without the header the query throws.\<close>

definition logout_route :: "nat \<Rightarrow> nat option \<Rightarrow> nat option \<Rightarrow> auth_db \<Rightarrow> auth_response \<times> auth_db" where
  "logout_route now cookie authorization st =
     (case authMiddleware now cookie st of
        (Inl msg, st') \<Rightarrow> (AuthStatus 401 msg, st')
      | (Inr req_user, st') \<Rightarrow>
          (case authorization of
             None \<Rightarrow> (Auth500, st')
           | Some sid \<Rightarrow> (LoggedOut, Auth_logout sid st')))"

text \<open>
  The handler of \<open>PUT /api/auth/change-role\<close>. With \<open>req.user\<close> null the read of
  \<open>req.user.role\<close> throws inside the handler's \<open>try\<close>, and the \<open>catch\<close> answers 500.
\<close>

definition change_role_handler :: "User option \<Rightarrow> nat \<Rightarrow> string \<Rightarrow> auth_db \<Rightarrow> auth_response \<times> auth_db" where
  "change_role_handler req_user i newRole st =
     (case req_user of
        None \<Rightarrow> (Auth500, st)
      | Some user \<Rightarrow>
          if role user \<noteq> ''Admin''
          then (AuthStatus 403 ''Unauthorized. Requires Admin role'', st)
          else if newRole \<noteq> ''Admin'' \<and> newRole \<noteq> ''Organizer''
          then (AuthStatus 400 ''Invalid role. Must be Admin or Organizer'', st)
          else (case Auth_changeUserRole i newRole st of
                  Inl msg \<Rightarrow> (AuthStatus 500 msg, st)
                | Inr st' \<Rightarrow> (RoleUpdated, st')))"

definition change_role_route :: "nat \<Rightarrow> nat option \<Rightarrow> nat \<Rightarrow> string \<Rightarrow> auth_db \<Rightarrow> auth_response \<times> auth_db" where
  "change_role_route now cookie i newRole st =
     (case authMiddleware now cookie st of
        (Inl msg, st') \<Rightarrow> (AuthStatus 401 msg, st')
      | (Inr req_user, st') \<Rightarrow> change_role_handler req_user i newRole st')"

text \<open>
  \<open>POST /api/enterprise/create\<close> (the enterprise routes). Their own \<open>checkRole(['Admin'])\<close>
  reads \<open>req.user.role\<close> outside any \<open>try\<close>: with \<open>req.user\<close> null it throws and the
  error middleware of server.js answers 500. The writes to the contact sheet and the
  e-mail that follow the registration do not touch the users.
\<close>

definition enterprise_create_handler :: "(string \<Rightarrow> string \<Rightarrow> string) \<Rightarrow> string \<Rightarrow> User option \<Rightarrow> string \<Rightarrow> string \<Rightarrow> auth_db \<Rightarrow> auth_response \<times> auth_db" where
  "enterprise_create_handler kdf rnd req_user uname password st =
     (case req_user of
        None \<Rightarrow> (AuthStatus 500 ''Something went wrong!'', st)
      | Some user \<Rightarrow>
          if role user \<notin> set [''Admin'']
          then (AuthStatus 403 ''Unauthorized. Requires one of the following roles: Admin'', st)
          else (case Auth_register kdf rnd uname password ''Enterprise'' st of
                  Inl msg \<Rightarrow> (AuthStatus 500 msg, st)
                | Inr (newId, st') \<Rightarrow> (EnterpriseCreated newId, st')))"

definition enterprise_create_route :: "(string \<Rightarrow> string \<Rightarrow> string) \<Rightarrow> string \<Rightarrow> nat \<Rightarrow> nat option \<Rightarrow> string \<Rightarrow> string \<Rightarrow> auth_db \<Rightarrow> auth_response \<times> auth_db" where
  "enterprise_create_route kdf rnd now cookie uname password st =
     (case authMiddleware now cookie st of
        (Inl msg, st') \<Rightarrow> (AuthStatus 401 msg, st')
      | (Inr req_user, st') \<Rightarrow> enterprise_create_handler kdf rnd req_user uname password st')"

text \<open>\<open>startServer\<close> of server.js: the default administrator is registered when the
  store has no user of role Admin; when the registration throws, the server does not
  start (\<open>None\<close>).\<close>

definition startServer :: "(string \<Rightarrow> string \<Rightarrow> string) \<Rightarrow> string \<Rightarrow> auth_db \<Rightarrow> auth_db option" where
  "startServer kdf rnd st =
     (case find (\<lambda>u. role u = ''Admin'') (users st) of
        Some adminExists \<Rightarrow> Some st
      | None \<Rightarrow>
          (case Auth_register kdf rnd ''admin'' ''admin123'' ''Admin'' st of
             Inl msg \<Rightarrow> None
           | Inr (newId, st') \<Rightarrow> Some st'))"

text \<open>
  The stores of users and sessions that sequences of requests to the routes that write
  them produce after the first start of the server.
\<close>

inductive api_reachable :: "auth_db \<Rightarrow> bool" where
  p_start: "startServer kdf rnd empty_auth_db = Some st \<Longrightarrow> api_reachable st"
| p_register:
    "api_reachable st \<Longrightarrow> api_reachable (snd (register_route kdf rnd uname password client_role st))"
| p_login: "api_reachable st \<Longrightarrow> api_reachable (snd (login_route kdf now uname password st))"
| p_logout: "api_reachable st \<Longrightarrow> api_reachable (snd (logout_route now cookie authorization st))"
| p_change_role:
    "api_reachable st \<Longrightarrow> api_reachable (snd (change_role_route now cookie i newRole st))"
| p_enterprise_create:
    "api_reachable st \<Longrightarrow>
     api_reachable (snd (enterprise_create_route kdf rnd now cookie uname password st))"

text \<open>Stores in which no session is joined to a user and no user has role Enterprise.\<close>

definition unjoined :: "auth_db \<Rightarrow> bool" where
  "unjoined st \<longleftrightarrow>
     list_all (\<lambda>x. sess_UserId x = None) (sessions st) \<and>
     list_all (\<lambda>u. role u \<noteq> ''Enterprise'') (users st)"

section \<open>Unfolding the handlers on concrete stores\<close>

lemmas store_defs =
  empty_db_def lenient_store_def strict_store_def fresh_id_def StandQueue_findByPk_def
  StandQueue_findOne_def QueueEntry_findByPk_def standQueueId_def
  validate_currentParticipants_def StandQueue_update_def StandQueue_create_def
  StandQueue_findOrCreate_def QueueEntry_update_def QueueEntry_create_def holds_slot_def
  activeQueues_def existingEntry_def on_stand_of_def Let_def

lemmas handler_defs =
  post_stand_def queues_join_def complete_def uncomplete_def enterprise_join_def
  enterprise_leave_def

section \<open>The validators bound the number of participants of a stand\<close>

lemma find_SomeD: "find P xs = Some x \<Longrightarrow> x \<in> set xs \<and> P x"
  by (induction xs) (auto split: if_splits)

lemma wf_stand_bounds:
  "wf_db s \<Longrightarrow> q \<in> set (stands s) \<Longrightarrow>
   0 \<le> currentParticipants q \<and> currentParticipants q \<le> 4 \<and> 0 \<le> totalProcessed q"
  by (auto simp: wf_db_def list_all_iff validate_currentParticipants_def)

lemma findOne_in_stands: "StandQueue_findOne e s = Some q \<Longrightarrow> q \<in> set (stands s)"
  by (auto simp: StandQueue_findOne_def dest: find_SomeD)

lemma findByPk_in_stands: "StandQueue_findByPk k s = Some q \<Longrightarrow> q \<in> set (stands s)"
  by (auto simp: StandQueue_findByPk_def dest: find_SomeD split: option.splits)

lemma wf_db_entries [simp]: "wf_db (s\<lparr>entries := es\<rparr>) = wf_db s"
  by (simp add: wf_db_def)

lemma wf_StandQueue_update:
  assumes "wf_db s" "StandQueue_update q s = Inr s'" "0 \<le> totalProcessed q"
  shows "wf_db s'"
  using assms
  by (auto simp: StandQueue_update_def wf_db_def list_all_iff split: if_splits)

lemma wf_add_stand:
  assumes "wf_db s" "validate_currentParticipants (currentParticipants q)" "0 \<le> totalProcessed q"
  shows "wf_db (s\<lparr>stands := stands s @ [q]\<rparr>)"
  using assms by (auto simp: wf_db_def)

lemma wf_post_stand: "wf_db s \<Longrightarrow> wf_db (snd (post_stand e st n s))"
proof -
  assume wf: "wf_db s"
  show ?thesis
  proof (cases "StandQueue_findOne e s")
    case None
    then show ?thesis
      using wf wf_add_stand[OF wf]
      by (auto simp: post_stand_def StandQueue_create_def Let_def split: sum.splits if_splits)
  next
    case (Some q)
    then have "0 \<le> totalProcessed q"
      using wf_stand_bounds[OF wf findOne_in_stands] by blast
    then show ?thesis
      using Some wf wf_StandQueue_update[OF wf]
      by (auto simp: post_stand_def Let_def split: sum.splits)
  qed
qed

lemma stands_queues_join: "stands (snd (queues_join d now u e s)) = stands s"
  by (auto simp: queues_join_def QueueEntry_create_def Let_def split: sum.splits option.splits)

text \<open>A present entry: complete and uncomplete write the entry and answer 500, the read
  of \<open>entry.standQueueId\<close> having given no key to find the stand by.\<close>

lemma complete_present:
  "QueueEntry_findByPk k s = Some entry \<Longrightarrow>
   complete now k s =
     (Status500 TypeError,
      QueueEntry_update (entry\<lparr>qe_status := Completed, completedAt := Some now\<rparr>) s)"
  by (simp add: complete_def standQueueId_def StandQueue_findByPk_def)

lemma uncomplete_present:
  "QueueEntry_findByPk k s = Some entry \<Longrightarrow>
   uncomplete k s =
     (Status500 TypeError,
      QueueEntry_update (entry\<lparr>qe_status := Active, completedAt := None\<rparr>) s)"
  by (simp add: uncomplete_def standQueueId_def StandQueue_findByPk_def)

lemma complete_absent:
  "QueueEntry_findByPk k s = None \<Longrightarrow>
   complete now k s = (Status404 ''Queue entry not found'', s)"
  by (simp add: complete_def)

lemma uncomplete_absent:
  "QueueEntry_findByPk k s = None \<Longrightarrow> uncomplete k s = (Status404 ''Queue entry not found'', s)"
  by (simp add: uncomplete_def)

lemma stands_QueueEntry_update [simp]: "stands (QueueEntry_update x s) = stands s"
  by (simp add: QueueEntry_update_def)

lemma stands_complete: "stands (snd (complete now k s)) = stands s"
  by (cases "QueueEntry_findByPk k s") (simp_all add: complete_present complete_absent)

lemma stands_uncomplete: "stands (snd (uncomplete k s)) = stands s"
  by (cases "QueueEntry_findByPk k s") (simp_all add: uncomplete_present uncomplete_absent)

lemma wf_db_stands_eq: "stands s' = stands s \<Longrightarrow> wf_db s' = wf_db s"
  by (simp add: wf_db_def)

lemma wf_findOrCreate:
  assumes "wf_db s" "StandQueue_findOrCreate e s = (q, s1)"
  shows "wf_db s1 \<and> q \<in> set (stands s1) \<and> entries s1 = entries s"
proof (cases "StandQueue_findOne e s")
  case None
  then show ?thesis
    using assms wf_add_stand[OF assms(1)]
    by (auto simp: StandQueue_findOrCreate_def Let_def validate_currentParticipants_def)
next
  case (Some r)
  then show ?thesis
    using assms findOne_in_stands[OF Some] by (auto simp: StandQueue_findOrCreate_def)
qed

lemma wf_enterprise_join: "wf_db s \<Longrightarrow> wf_db (snd (enterprise_join d now u e s))"
proof -
  assume wf: "wf_db s"
  obtain q s1 where f: "StandQueue_findOrCreate e s = (q, s1)" by fastforce
  note a = wf_findOrCreate[OF wf f]
  obtain x s2 where c: "QueueEntry_create now u (sq_id q) Active s1 = (x, s2)" by fastforce
  have wf2: "wf_db s2" using c a by (auto simp: QueueEntry_create_def Let_def)
  have "0 \<le> totalProcessed q" using wf_stand_bounds a by blast
  then show ?thesis
    using wf f c a wf2 wf_StandQueue_update[OF wf2]
    by (auto simp: enterprise_join_def split: option.splits sum.splits)
qed

lemma wf_enterprise_leave: "wf_db s \<Longrightarrow> wf_db (snd (enterprise_leave d u e s))"
proof -
  assume wf: "wf_db s"
  let ?P = "\<lambda>x. UserId x = Some u \<and> qe_status x = Active \<and> on_stand_of e s x"
  show ?thesis
  proof (cases "find ?P (entries s)")
    case None
    then show ?thesis using wf by (simp add: enterprise_leave_def)
  next
    case (Some x)
    let ?s1 = "QueueEntry_update (x\<lparr>qe_status := Left\<rparr>) s"
    have wf1: "wf_db ?s1" using wf by (simp add: QueueEntry_update_def)
    show ?thesis
    proof (cases "StandQueue_findByPk (StandQueueId x) s")
      case None
      then show ?thesis using Some wf wf1 by (simp add: enterprise_leave_def)
    next
      case q: (Some q)
      have "0 \<le> totalProcessed q"
        using wf_stand_bounds[OF wf findByPk_in_stands[OF q]] by blast
      then show ?thesis
        using Some q wf wf1 wf_StandQueue_update[OF wf1]
        by (auto simp: enterprise_leave_def Let_def split: sum.splits)
    qed
  qed
qed

lemma wf_empty_db: "wf_db empty_db"
  by (simp add: wf_db_def empty_db_def)

lemma reachable_wf: "reachable d s \<Longrightarrow> wf_db s"
  by (induction rule: reachable.induct)
     (simp_all add: wf_empty_db wf_post_stand wf_enterprise_join wf_enterprise_leave
        wf_db_stands_eq[OF stands_queues_join] wf_db_stands_eq[OF stands_complete]
        wf_db_stands_eq[OF stands_uncomplete])

text \<open>
  Claim C2. In every store that calls of the queue handlers can produce, on a database
  of either kind, every stand has a number of current participants between 0 and the
  capacity of the stand model: no request, the reopening of a completed entry included,
  brings the number above it.
\<close>

theorem currentParticipants_within_capacity:
  assumes "reachable d s" and "q \<in> set (stands s)"
  shows "0 \<le> currentParticipants q \<and> currentParticipants q \<le> capacity"
  using wf_stand_bounds[OF reachable_wf[OF assms(1)] assms(2)] by (simp add: capacity_def)

text \<open>
  The theorem at a store where the bound is met: after a join, an organizer sets the
  number of the stand to 4 and then to 5; the second update is refused by the validators
  and the number stays 4.
\<close>

theorem currentParticipants_within_capacity_witness:
  "reachable lenient_store
     (snd (post_stand ''acme'' None (Some 5) (snd (post_stand ''acme'' None (Some 4)
        (snd (enterprise_join lenient_store 0 7 ''acme'' empty_db)))))) \<and>
   fst (post_stand ''acme'' None (Some 5) (snd (post_stand ''acme'' None (Some 4)
        (snd (enterprise_join lenient_store 0 7 ''acme'' empty_db))))) =
     Status500 SequelizeValidationError \<and>
   stands (snd (post_stand ''acme'' None (Some 5) (snd (post_stand ''acme'' None (Some 4)
        (snd (enterprise_join lenient_store 0 7 ''acme'' empty_db)))))) =
     [\<lparr>sq_id = 1, enterpriseId = ''acme'', sq_status = Open, currentParticipants = 4,
        totalProcessed = 0\<rparr>] \<and>
   (0::int) \<le> 4 \<and> (4::int) \<le> capacity"
proof -
  let ?s = "snd (post_stand ''acme'' None (Some 5) (snd (post_stand ''acme'' None (Some 4)
        (snd (enterprise_join lenient_store 0 7 ''acme'' empty_db)))))"
  let ?q = "\<lparr>sq_id = 1, enterpriseId = ''acme'', sq_status = Open, currentParticipants = 4,
        totalProcessed = 0\<rparr>"
  have r: "reachable lenient_store ?s"
    by (intro reachable.intros)
  have st: "stands ?s = [?q]"
    by (simp add: handler_defs store_defs)
  have f: "fst (post_stand ''acme'' None (Some 5) (snd (post_stand ''acme'' None (Some 4)
        (snd (enterprise_join lenient_store 0 7 ''acme'' empty_db))))) =
     Status500 SequelizeValidationError"
    by (simp add: handler_defs store_defs)
  have m: "?q \<in> set (stands ?s)" using st by simp
  from currentParticipants_within_capacity[OF r m] r st f show ?thesis by simp
qed

section \<open>Entries written by the handlers record no user and no stand\<close>

lemma unowned_entries_cong: "entries s' = entries s \<Longrightarrow> unowned s' = unowned s"
  by (simp add: unowned_def)

lemma entries_StandQueue_update: "StandQueue_update q s = Inr s' \<Longrightarrow> entries s' = entries s"
  by (auto simp: StandQueue_update_def split: if_splits)

lemma unowned_QueueEntry_create:
  "unowned s \<Longrightarrow> QueueEntry_create now u k st s = (x, s') \<Longrightarrow>
   unowned s' \<and> UserId x = None \<and> StandQueueId x = None"
  by (auto simp: unowned_def QueueEntry_create_def Let_def)

lemma unowned_QueueEntry_update:
  "unowned s \<Longrightarrow> UserId x = None \<Longrightarrow> StandQueueId x = None \<Longrightarrow>
   unowned (QueueEntry_update x s)"
  by (auto simp: unowned_def QueueEntry_update_def list_all_iff)

lemma unowned_found:
  "unowned s \<Longrightarrow> QueueEntry_findByPk k s = Some x \<Longrightarrow> UserId x = None \<and> StandQueueId x = None"
  by (auto simp: unowned_def QueueEntry_findByPk_def list_all_iff dest!: find_SomeD)

lemma unowned_post_stand: "unowned s \<Longrightarrow> unowned (snd (post_stand e st n s))"
  by (auto simp: post_stand_def StandQueue_update_def StandQueue_create_def unowned_def Let_def
           split: option.splits sum.splits if_splits)

lemma unowned_queues_join: "unowned s \<Longrightarrow> unowned (snd (queues_join d now u e s))"
  by (auto simp: queues_join_def split: sum.splits option.splits prod.splits
           dest: unowned_QueueEntry_create)

lemma unowned_complete: "unowned s \<Longrightarrow> unowned (snd (complete now k s))"
  by (cases "QueueEntry_findByPk k s")
     (auto simp: complete_present complete_absent dest: unowned_found
           intro!: unowned_QueueEntry_update)

lemma unowned_uncomplete: "unowned s \<Longrightarrow> unowned (snd (uncomplete k s))"
  by (cases "QueueEntry_findByPk k s")
     (auto simp: uncomplete_present uncomplete_absent dest: unowned_found
           intro!: unowned_QueueEntry_update)

text \<open>On a store none of whose entries records a user, the queries by user find nothing.\<close>

lemma unowned_find_user:
  "unowned s \<Longrightarrow> find (\<lambda>x. UserId x = Some u \<and> P x) (entries s) = None"
  by (auto simp: unowned_def list_all_iff find_None_iff)

lemma unowned_filter_user:
  "unowned s \<Longrightarrow> filter (\<lambda>x. UserId x = Some u \<and> P x) (entries s) = []"
  by (auto simp: unowned_def list_all_iff filter_empty_conv)

lemma unowned_existingEntry:
  "unowned s \<Longrightarrow>
   existingEntry d u s = (if case_sensitive_columns d then Inl SequelizeDatabaseError else Inr None)"
  by (simp add: existingEntry_def unowned_find_user)

lemma unowned_activeQueues:
  "unowned s \<Longrightarrow>
   activeQueues d u s = (if case_sensitive_columns d then Inl SequelizeDatabaseError else Inr 0)"
  by (simp add: activeQueues_def unowned_filter_user)

text \<open>On such a store the leave handler finds no entry to leave, for any participant.\<close>

lemma enterprise_leave_unowned:
  assumes "unowned s"
  shows "enterprise_leave d u e s =
           (if case_sensitive_columns d then Status500 SequelizeDatabaseError
            else Status404 ''You are not in this queue'', s)"
  using unowned_find_user[OF assms, of u "\<lambda>x. qe_status x = Active \<and> on_stand_of e s x"]
  by (simp add: enterprise_leave_def)

lemma unowned_enterprise_leave: "unowned s \<Longrightarrow> unowned (snd (enterprise_leave d u e s))"
  by (simp add: enterprise_leave_unowned)

lemma unowned_enterprise_join: "unowned s \<Longrightarrow> unowned (snd (enterprise_join d now u e s))"
proof -
  assume un: "unowned s"
  obtain q s1 where f: "StandQueue_findOrCreate e s = (q, s1)" by fastforce
  have e1: "entries s1 = entries s"
    using f by (auto simp: StandQueue_findOrCreate_def Let_def split: option.splits)
  then have un1: "unowned s1" using un by (simp add: unowned_def)
  obtain x s2 where c: "QueueEntry_create now u (sq_id q) Active s1 = (x, s2)" by fastforce
  have un2: "unowned s2" using unowned_QueueEntry_create[OF un1 c] by simp
  show ?thesis
    using un un1 un2 f c
    by (auto simp: enterprise_join_def unowned_existingEntry
             unowned_entries_cong[OF entries_StandQueue_update]
             split: sum.splits)
qed

lemma unowned_empty_db: "unowned empty_db"
  by (simp add: unowned_def empty_db_def)

lemma reachable_unowned: "reachable d s \<Longrightarrow> unowned s"
  by (induction rule: reachable.induct)
     (simp_all add: unowned_empty_db unowned_post_stand unowned_queues_join unowned_complete
        unowned_uncomplete unowned_enterprise_join unowned_enterprise_leave)

section \<open>The stand's counter and its waiting and active entries\<close>

text \<open>
  Claim C1: after every operation the number of current participants of a stand equals
  the number of its Waiting and Active entries. The join handler of
  enterprise.queue.routes.js does not keep the equality. Run for participant 7 and the
  enterprise acme on the empty store, where the equality holds, on a database that
  resolves the column name \<open>userId\<close>: it answers 200, creates the stand with 1 current
  participant and an Active entry that records no stand and no user, so that the stand
  has no Waiting or Active entry. On a database with case-sensitive column names the same
  call answers 500 and writes nothing.
\<close>

theorem enterprise_join_entry_not_on_stand:
  "occupancy_invariant empty_db \<and>
   enterprise_join lenient_store 0 7 ''acme'' empty_db =
     (OkEntry \<lparr>qe_id = 1, qe_status = Active, joinedAt = 0, startedAt = None,
         completedAt = None, UserId = None, StandQueueId = None\<rparr>,
      \<lparr>stands = [\<lparr>sq_id = 1, enterpriseId = ''acme'', sq_status = Open,
          currentParticipants = 1, totalProcessed = 0\<rparr>],
       entries = [\<lparr>qe_id = 1, qe_status = Active, joinedAt = 0, startedAt = None,
           completedAt = None, UserId = None, StandQueueId = None\<rparr>]\<rparr>) \<and>
   occupancy 1 (snd (enterprise_join lenient_store 0 7 ''acme'' empty_db)) = 0 \<and>
   \<not> occupancy_invariant (snd (enterprise_join lenient_store 0 7 ''acme'' empty_db)) \<and>
   enterprise_join strict_store 0 7 ''acme'' empty_db =
     (Status500 SequelizeDatabaseError, empty_db)"
  by (simp add: occupancy_invariant_def occupancy_def handler_defs store_defs)

section \<open>Completing and reopening an entry\<close>

text \<open>
  Claim C3: complete fails with NotFound for an absent entry and with InvalidState for an
  entry that is not Waiting or Active, and marks the entry Completed, decrements the
  occupancy and increments totalProcessed only on success. The handler, on the store with
  one stand of 1 current participant and its Active entry 1: completing entry 1 at time 5
  answers 500, after it has marked the entry Completed; the stand keeps its 1 current
  participant and its totalProcessed 0. A second complete, at time 9, answers 500 again
  and rewrites completedAt. Completing the absent entry 2 answers 404 and writes nothing.
\<close>

theorem complete_answers_500:
  "snd (enterprise_join lenient_store 0 7 ''acme'' empty_db) =
     \<lparr>stands = [\<lparr>sq_id = 1, enterpriseId = ''acme'', sq_status = Open,
         currentParticipants = 1, totalProcessed = 0\<rparr>],
       entries = [\<lparr>qe_id = 1, qe_status = Active, joinedAt = 0, startedAt = None,
           completedAt = None, UserId = None, StandQueueId = None\<rparr>]\<rparr> \<and>
   complete 5 1 (snd (enterprise_join lenient_store 0 7 ''acme'' empty_db)) =
     (Status500 TypeError,
      \<lparr>stands = [\<lparr>sq_id = 1, enterpriseId = ''acme'', sq_status = Open,
          currentParticipants = 1, totalProcessed = 0\<rparr>],
       entries = [\<lparr>qe_id = 1, qe_status = Completed, joinedAt = 0, startedAt = None,
           completedAt = Some 5, UserId = None, StandQueueId = None\<rparr>]\<rparr>) \<and>
   complete 9 1 (snd (complete 5 1 (snd (enterprise_join lenient_store 0 7 ''acme'' empty_db)))) =
     (Status500 TypeError,
      \<lparr>stands = [\<lparr>sq_id = 1, enterpriseId = ''acme'', sq_status = Open,
          currentParticipants = 1, totalProcessed = 0\<rparr>],
       entries = [\<lparr>qe_id = 1, qe_status = Completed, joinedAt = 0, startedAt = None,
           completedAt = Some 9, UserId = None, StandQueueId = None\<rparr>]\<rparr>) \<and>
   complete 5 2 (snd (enterprise_join lenient_store 0 7 ''acme'' empty_db)) =
     (Status404 ''Queue entry not found'', snd (enterprise_join lenient_store 0 7 ''acme'' empty_db))"
  by (simp add: handler_defs store_defs)

text \<open>
  Claim C4: uncomplete fails with InvalidState for an entry that is not Completed, is
  denied when the stand would exceed its capacity, and on success sets the entry Active,
  increments the occupancy and decrements totalProcessed. The handler, on the store with
  one stand of 1 current participant and its Completed entry 1: reopening entry 1 answers
  500, after it has set the entry Active and cleared completedAt; the stand keeps its 1
  current participant and its totalProcessed 0. On the store with one stand and its
  Waiting entry 1, which is not Completed: reopening entry 1 answers 500 too, after it has
  set the entry Active.
\<close>

theorem uncomplete_answers_500:
  "snd (complete 5 1 (snd (enterprise_join lenient_store 0 7 ''acme'' empty_db))) =
     \<lparr>stands = [\<lparr>sq_id = 1, enterpriseId = ''acme'', sq_status = Open,
         currentParticipants = 1, totalProcessed = 0\<rparr>],
       entries = [\<lparr>qe_id = 1, qe_status = Completed, joinedAt = 0, startedAt = None,
           completedAt = Some 5, UserId = None, StandQueueId = None\<rparr>]\<rparr> \<and>
   uncomplete 1 (snd (complete 5 1 (snd (enterprise_join lenient_store 0 7 ''acme'' empty_db)))) =
     (Status500 TypeError,
      \<lparr>stands = [\<lparr>sq_id = 1, enterpriseId = ''acme'', sq_status = Open,
          currentParticipants = 1, totalProcessed = 0\<rparr>],
       entries = [\<lparr>qe_id = 1, qe_status = Active, joinedAt = 0, startedAt = None,
           completedAt = None, UserId = None, StandQueueId = None\<rparr>]\<rparr>) \<and>
   snd (queues_join lenient_store 0 7 ''acme'' (snd (post_stand ''acme'' None None empty_db))) =
     \<lparr>stands = [\<lparr>sq_id = 1, enterpriseId = ''acme'', sq_status = Open,
         currentParticipants = 0, totalProcessed = 0\<rparr>],
       entries = [\<lparr>qe_id = 1, qe_status = Waiting, joinedAt = 0, startedAt = None,
           completedAt = None, UserId = None, StandQueueId = None\<rparr>]\<rparr> \<and>
   uncomplete 1 (snd (queues_join lenient_store 0 7 ''acme'' (snd (post_stand ''acme'' None None empty_db)))) =
     (Status500 TypeError,
      \<lparr>stands = [\<lparr>sq_id = 1, enterpriseId = ''acme'', sq_status = Open,
          currentParticipants = 0, totalProcessed = 0\<rparr>],
       entries = [\<lparr>qe_id = 1, qe_status = Active, joinedAt = 0, startedAt = None,
           completedAt = None, UserId = None, StandQueueId = None\<rparr>]\<rparr>)"
  by (simp add: handler_defs store_defs)

text \<open>
  The entry found by key after an update of the entry of that key.
\<close>

lemma find_key_upd:
  "find (\<lambda>x. key x = k) xs = Some a \<Longrightarrow> key b = k \<Longrightarrow>
   find (\<lambda>x. key x = k) (map (\<lambda>x. if key x = k then b else x) xs) = Some b"
  by (induction xs) (auto split: if_splits)

lemma QueueEntry_findByPk_key: "QueueEntry_findByPk k s = Some x \<Longrightarrow> qe_id x = k"
  by (auto simp: QueueEntry_findByPk_def dest: find_SomeD)

lemma QueueEntry_findByPk_update:
  assumes "QueueEntry_findByPk k s = Some x" "qe_id x' = qe_id x"
  shows "QueueEntry_findByPk k (QueueEntry_update x' s) = Some x'"
  using find_key_upd[of qe_id k "entries s" x x'] assms QueueEntry_findByPk_key[OF assms(1)]
  by (simp add: QueueEntry_findByPk_def QueueEntry_update_def)

text \<open>
  Claim C9. For every store and every entry present in it, complete followed by
  uncomplete on that entry leaves the entry Active, with completedAt cleared and its
  other fields as they were, and leaves every stand as it was before the complete: the
  same number of current participants and the same totalProcessed.
\<close>

theorem complete_uncomplete_round_trip:
  assumes "QueueEntry_findByPk k s = Some entry"
  shows "QueueEntry_findByPk k (snd (uncomplete k (snd (complete now k s)))) =
           Some (entry\<lparr>qe_status := Active, completedAt := None\<rparr>) \<and>
         stands (snd (uncomplete k (snd (complete now k s)))) = stands s"
proof -
  let ?e1 = "entry\<lparr>qe_status := Completed, completedAt := Some now\<rparr>"
  let ?s1 = "QueueEntry_update ?e1 s"
  have c: "complete now k s = (Status500 TypeError, ?s1)"
    by (rule complete_present[OF assms])
  have f1: "QueueEntry_findByPk k ?s1 = Some ?e1"
    by (rule QueueEntry_findByPk_update[OF assms]) simp
  let ?e2 = "?e1\<lparr>qe_status := Active, completedAt := None\<rparr>"
  have u: "uncomplete k ?s1 = (Status500 TypeError, QueueEntry_update ?e2 ?s1)"
    by (rule uncomplete_present[OF f1])
  have f2: "QueueEntry_findByPk k (QueueEntry_update ?e2 ?s1) = Some ?e2"
    by (rule QueueEntry_findByPk_update[OF f1]) simp
  show ?thesis using c u f2 by simp
qed

text \<open>
  The theorem at the store a join produces: entry 1 is Active before and after the round
  trip, the stand has 1 current participant and totalProcessed 0 before and after.
\<close>

theorem complete_uncomplete_round_trip_witness:
  "QueueEntry_findByPk 1 (snd (enterprise_join lenient_store 0 7 ''acme'' empty_db)) =
     Some \<lparr>qe_id = 1, qe_status = Active, joinedAt = 0, startedAt = None,
            completedAt = None, UserId = None, StandQueueId = None\<rparr> \<and>
   QueueEntry_findByPk 1 (snd (uncomplete 1 (snd (complete 5 1
      (snd (enterprise_join lenient_store 0 7 ''acme'' empty_db)))))) =
     Some \<lparr>qe_id = 1, qe_status = Active, joinedAt = 0, startedAt = None,
            completedAt = None, UserId = None, StandQueueId = None\<rparr> \<and>
   stands (snd (uncomplete 1 (snd (complete 5 1
      (snd (enterprise_join lenient_store 0 7 ''acme'' empty_db)))))) =
     [\<lparr>sq_id = 1, enterpriseId = ''acme'', sq_status = Open, currentParticipants = 1,
        totalProcessed = 0\<rparr>]"
proof -
  let ?s = "snd (enterprise_join lenient_store 0 7 ''acme'' empty_db)"
  have e: "QueueEntry_findByPk 1 ?s =
     Some \<lparr>qe_id = 1, qe_status = Active, joinedAt = 0, startedAt = None,
            completedAt = None, UserId = None, StandQueueId = None\<rparr>"
    by (simp add: handler_defs store_defs)
  have st: "stands ?s =
     [\<lparr>sq_id = 1, enterpriseId = ''acme'', sq_status = Open, currentParticipants = 1,
        totalProcessed = 0\<rparr>]"
    by (simp add: handler_defs store_defs)
  from complete_uncomplete_round_trip[OF e, of 5] e st show ?thesis
    by simp
qed

section \<open>Leaving a queue\<close>

text \<open>
  Claim C8: for a participant who holds one Waiting or Active entry on a stand, the first
  leave succeeds, a second one fails with NotInQueue, and the occupancy drops by exactly
  one. The handlers: participant 7 joins the stand of acme through the enterprise join
  handler, which answers 200 with an Active entry and brings the stand to 1 current
  participant. The first leave of participant 7 for acme answers 404 ``You are not in this
  queue'' on a database that resolves the column name \<open>userId\<close>, and 500 on a database
  with case-sensitive column names; either way the store is unchanged and the stand still
  has 1 current participant.
\<close>

theorem leave_after_join_not_found:
  "enterprise_join lenient_store 0 7 ''acme'' empty_db =
     (OkEntry \<lparr>qe_id = 1, qe_status = Active, joinedAt = 0, startedAt = None,
                completedAt = None, UserId = None, StandQueueId = None\<rparr>,
      \<lparr>stands = [\<lparr>sq_id = 1, enterpriseId = ''acme'', sq_status = Open,
                   currentParticipants = 1, totalProcessed = 0\<rparr>],
       entries = [\<lparr>qe_id = 1, qe_status = Active, joinedAt = 0, startedAt = None,
                    completedAt = None, UserId = None, StandQueueId = None\<rparr>]\<rparr>) \<and>
   enterprise_leave lenient_store 7 ''acme''
       (snd (enterprise_join lenient_store 0 7 ''acme'' empty_db)) =
     (Status404 ''You are not in this queue'',
      snd (enterprise_join lenient_store 0 7 ''acme'' empty_db)) \<and>
   enterprise_leave strict_store 7 ''acme''
       (snd (enterprise_join lenient_store 0 7 ''acme'' empty_db)) =
     (Status500 SequelizeDatabaseError,
      snd (enterprise_join lenient_store 0 7 ''acme'' empty_db))"
  by (simp add: handler_defs store_defs)

section \<open>Joining a closed stand\<close>

text \<open>
  The join handler of queues.routes.js denies the join of a closed stand and writes
  nothing.
\<close>

lemma queues_join_closed:
  assumes "StandQueue_findOne e s = Some q" "sq_status q = Closed"
  shows "\<not> succeeded (fst (queues_join d now u e s)) \<and> snd (queues_join d now u e s) = s"
  using assms by (auto simp: queues_join_def succeeded_def split: sum.splits)

text \<open>
  Claim C6: on every join path a join of a stand whose status is Closed is denied, no entry
  is created and no field of the stand changes. An organizer creates the stand of acme
  with status Closed. The join handler of queues.routes.js answers 400 ``This stand queue
  is not available'' and writes nothing. The join handler of enterprise.queue.routes.js,
  which does not read the status, run for participant 7 on a database that resolves the
  column name \<open>userId\<close>, answers 200, creates an Active entry and raises the number of
  current participants of the closed stand to 1. On a database with case-sensitive column
  names it answers 500 and writes nothing.
\<close>

theorem enterprise_join_closed_stand:
  "snd (post_stand ''acme'' (Some Closed) None empty_db) =
     \<lparr>stands = [\<lparr>sq_id = 1, enterpriseId = ''acme'', sq_status = Closed,
         currentParticipants = 0, totalProcessed = 0\<rparr>], entries = []\<rparr> \<and>
   queues_join lenient_store 0 7 ''acme'' (snd (post_stand ''acme'' (Some Closed) None empty_db)) =
     (Status400 ''This stand queue is not available'',
      snd (post_stand ''acme'' (Some Closed) None empty_db)) \<and>
   enterprise_join lenient_store 0 7 ''acme'' (snd (post_stand ''acme'' (Some Closed) None empty_db)) =
     (OkEntry \<lparr>qe_id = 1, qe_status = Active, joinedAt = 0, startedAt = None,
         completedAt = None, UserId = None, StandQueueId = None\<rparr>,
      \<lparr>stands = [\<lparr>sq_id = 1, enterpriseId = ''acme'', sq_status = Closed,
          currentParticipants = 1, totalProcessed = 0\<rparr>],
       entries = [\<lparr>qe_id = 1, qe_status = Active, joinedAt = 0, startedAt = None,
           completedAt = None, UserId = None, StandQueueId = None\<rparr>]\<rparr>) \<and>
   enterprise_join strict_store 0 7 ''acme'' (snd (post_stand ''acme'' (Some Closed) None empty_db)) =
     (Status500 SequelizeDatabaseError, snd (post_stand ''acme'' (Some Closed) None empty_db))"
  by (simp add: handler_defs store_defs)

section \<open>The participant's limit\<close>

text \<open>
  On a store none of whose entries records a user, and so on every store the handlers
  produce, neither join handler ever answers with its participant limit.
\<close>

lemma participant_limit_never_met:
  assumes "unowned s"
  shows "fst (queues_join d now u e s) \<noteq> Status400 ''You can only be in 2 queues at a time'' \<and>
         fst (enterprise_join d now u e s) \<noteq> Status400 ''You are already in an active queue''"
  by (auto simp: queues_join_def enterprise_join_def unowned_activeQueues[OF assms]
        unowned_existingEntry[OF assms] QueueEntry_create_def Let_def
      split: option.splits prod.splits sum.splits)

text \<open>
  Claim C7: a join is denied exactly when the participant already holds 2 Waiting or
  Active entries, and a participant with fewer passes the check. The join handler of
  queues.routes.js, with three Open stands acme, globex and initech: on a database that
  resolves the column name \<open>userId\<close> participant 7 joins acme and globex, and the third
  join, of initech, answers 200 with a third Waiting entry. On a database with
  case-sensitive column names the first join of participant 7, who holds no entry,
  answers 500.
\<close>

theorem third_join_not_denied:
  "stands (snd (post_stand ''initech'' None None (snd (post_stand ''globex'' None None
         (snd (post_stand ''acme'' None None empty_db)))))) =
     [\<lparr>sq_id = 1, enterpriseId = ''acme'', sq_status = Open, currentParticipants = 0,
        totalProcessed = 0\<rparr>,
      \<lparr>sq_id = 2, enterpriseId = ''globex'', sq_status = Open, currentParticipants = 0,
        totalProcessed = 0\<rparr>,
      \<lparr>sq_id = 3, enterpriseId = ''initech'', sq_status = Open, currentParticipants = 0,
        totalProcessed = 0\<rparr>] \<and>
   succeeded (fst (queues_join lenient_store 1 7 ''acme''
      (snd (post_stand ''initech'' None None (snd (post_stand ''globex'' None None
         (snd (post_stand ''acme'' None None empty_db)))))))) \<and>
   succeeded (fst (queues_join lenient_store 2 7 ''globex''
      (snd (queues_join lenient_store 1 7 ''acme''
      (snd (post_stand ''initech'' None None (snd (post_stand ''globex'' None None
         (snd (post_stand ''acme'' None None empty_db)))))))))) \<and>
   fst (queues_join lenient_store 3 7 ''initech''
      (snd (queues_join lenient_store 2 7 ''globex''
      (snd (queues_join lenient_store 1 7 ''acme''
      (snd (post_stand ''initech'' None None (snd (post_stand ''globex'' None None
         (snd (post_stand ''acme'' None None empty_db))))))))))) =
     OkEntry \<lparr>qe_id = 3, qe_status = Waiting, joinedAt = 3, startedAt = None,
               completedAt = None, UserId = None, StandQueueId = None\<rparr> \<and>
   fst (queues_join strict_store 1 7 ''acme''
      (snd (post_stand ''initech'' None None (snd (post_stand ''globex'' None None
         (snd (post_stand ''acme'' None None empty_db))))))) =
     Status500 SequelizeDatabaseError"
  by (simp add: handler_defs store_defs succeeded_def)

section \<open>Filling a stand through the enterprise routes\<close>

lemma StandQueue_findOne_after_update:
  assumes "StandQueue_update q' s0 = Inr s'" "StandQueue_findOne e s0 = Some q"
    "sq_id q' = sq_id q" "enterpriseId q' = e"
  shows "StandQueue_findOne e s' = Some q'"
proof -
  have s': "stands s' = map (\<lambda>r. if sq_id r = sq_id q' then q' else r) (stands s0)"
    using assms(1) by (auto simp: StandQueue_update_def split: if_splits)
  have "find (\<lambda>r. enterpriseId r = e) xs = Some q \<Longrightarrow>
        find (\<lambda>r. enterpriseId r = e) (map (\<lambda>r. if sq_id r = sq_id q' then q' else r) xs) = Some q'"
    for xs
    using assms(3,4) by (induction xs) (auto split: if_splits)
  then show ?thesis using assms(2) by (simp add: StandQueue_findOne_def s')
qed

lemma findOne_enterpriseId: "StandQueue_findOne e s = Some q \<Longrightarrow> enterpriseId q = e"
  by (auto simp: StandQueue_findOne_def dest: find_SomeD)

lemma StandQueue_findOrCreate_found:
  "StandQueue_findOne e s = Some q \<Longrightarrow> StandQueue_findOrCreate e s = (q, s)"
  by (simp add: StandQueue_findOrCreate_def)

text \<open>
  Claim C5, as the code has it. On a store the handlers have produced, on a database that
  resolves the column name \<open>userId\<close>, for a stand with one current participant fewer
  than the join handler of enterprise.queue.routes.js admits: a join succeeds and raises
  the number of current participants to the limit, the other fields of the stand, its
  status included, staying as they were; a further join, by any participant, is rejected
  with 400 ``Queue is full (maximum 2 concurrent participants)'' and changes nothing; and a
  subsequent leave, by any participant, leaves the status of every stand as it was.
\<close>

theorem join_at_limit_keeps_status:
  assumes "reachable d s"
    and "\<not> case_sensitive_columns d"
    and "StandQueue_findOne e s = Some q"
    and "currentParticipants q = enterprise_join_limit - 1"
  shows "succeeded (fst (enterprise_join d now u e s)) \<and>
         StandQueue_findOne e (snd (enterprise_join d now u e s)) =
           Some (q\<lparr>currentParticipants := enterprise_join_limit\<rparr>) \<and>
         enterprise_join d now' v e (snd (enterprise_join d now u e s)) =
           (Status400 ''Queue is full (maximum 2 concurrent participants)'',
            snd (enterprise_join d now u e s)) \<and>
         map sq_status (stands (snd (enterprise_leave d w e (snd (enterprise_join d now u e s))))) =
           map sq_status (stands (snd (enterprise_join d now u e s)))"
proof -
  let ?x = "\<lparr>qe_id = fresh_id (map qe_id (entries s)), qe_status = Active, joinedAt = now,
              startedAt = None, completedAt = None, UserId = None, StandQueueId = None\<rparr>"
  let ?sx = "s\<lparr>entries := entries s @ [?x]\<rparr>"
  let ?q' = "q\<lparr>currentParticipants := currentParticipants q + 1\<rparr>"
  have un: "unowned s" by (rule reachable_unowned[OF assms(1)])
  have cp: "currentParticipants q = 1"
    using assms(4) by (simp add: enterprise_join_limit_def)
  have eq: "enterpriseId q = e" by (rule findOne_enterpriseId[OF assms(3)])
  obtain s1 where u1: "StandQueue_update ?q' ?sx = Inr s1"
    using cp by (simp add: StandQueue_update_def validate_currentParticipants_def)
  have j: "enterprise_join d now u e s = (OkEntry ?x, s1)"
    using unowned_existingEntry[OF un, of d u] assms(2) StandQueue_findOrCreate_found[OF assms(3)]
      cp u1
    by (simp add: enterprise_join_def QueueEntry_create_def Let_def)
  have r1: "reachable d s1"
    using r_enterprise_join[OF assms(1), of now u e] j by simp
  have un1: "unowned s1" by (rule reachable_unowned[OF r1])
  have one_sx: "StandQueue_findOne e ?sx = Some q"
    using assms(3) by (simp add: StandQueue_findOne_def)
  have one1: "StandQueue_findOne e s1 = Some ?q'"
    by (rule StandQueue_findOne_after_update[OF u1 one_sx]) (simp_all add: eq)
  have j2: "enterprise_join d now' v e s1 =
      (Status400 ''Queue is full (maximum 2 concurrent participants)'', s1)"
    using unowned_existingEntry[OF un1, of d v] assms(2) StandQueue_findOrCreate_found[OF one1] cp
    by (simp add: enterprise_join_def)
  have l: "snd (enterprise_leave d w e s1) = s1"
    by (simp add: enterprise_leave_unowned[OF un1])
  have "?q' = q\<lparr>currentParticipants := enterprise_join_limit\<rparr>"
    using cp by (simp add: enterprise_join_limit_def)
  then show ?thesis
    using j one1 j2 l by (simp add: succeeded_def)
qed

text \<open>
  The theorem at the stand of acme with 1 current participant, which a first join has
  created: the second join brings it to 2 and leaves it Open, the third is rejected, and
  the status is Open after a leave.
\<close>

theorem join_at_limit_keeps_status_witness:
  "reachable lenient_store (snd (enterprise_join lenient_store 0 7 ''acme'' empty_db)) \<and>
   \<not> case_sensitive_columns lenient_store \<and>
   StandQueue_findOne ''acme'' (snd (enterprise_join lenient_store 0 7 ''acme'' empty_db)) =
     Some \<lparr>sq_id = 1, enterpriseId = ''acme'', sq_status = Open, currentParticipants = 1,
            totalProcessed = 0\<rparr> \<and>
   succeeded (fst (enterprise_join lenient_store 1 8 ''acme''
      (snd (enterprise_join lenient_store 0 7 ''acme'' empty_db)))) \<and>
   StandQueue_findOne ''acme'' (snd (enterprise_join lenient_store 1 8 ''acme''
      (snd (enterprise_join lenient_store 0 7 ''acme'' empty_db)))) =
     Some \<lparr>sq_id = 1, enterpriseId = ''acme'', sq_status = Open, currentParticipants = 2,
            totalProcessed = 0\<rparr> \<and>
   fst (enterprise_join lenient_store 2 9 ''acme'' (snd (enterprise_join lenient_store 1 8 ''acme''
      (snd (enterprise_join lenient_store 0 7 ''acme'' empty_db))))) =
     Status400 ''Queue is full (maximum 2 concurrent participants)'' \<and>
   map sq_status (stands (snd (enterprise_leave lenient_store 8 ''acme''
      (snd (enterprise_join lenient_store 1 8 ''acme''
         (snd (enterprise_join lenient_store 0 7 ''acme'' empty_db))))))) = [Open]"
proof -
  let ?s = "snd (enterprise_join lenient_store 0 7 ''acme'' empty_db)"
  let ?q = "\<lparr>sq_id = 1, enterpriseId = ''acme'', sq_status = Open, currentParticipants = 1,
            totalProcessed = 0\<rparr>"
  have r: "reachable lenient_store ?s"
    by (intro reachable.intros)
  have c: "\<not> case_sensitive_columns lenient_store"
    by (simp add: lenient_store_def)
  have q: "StandQueue_findOne ''acme'' ?s = Some ?q"
    by (simp add: handler_defs store_defs)
  have l: "currentParticipants ?q = enterprise_join_limit - 1"
    by (simp add: enterprise_join_limit_def)
  have st: "map sq_status (stands (snd (enterprise_join lenient_store 1 8 ''acme'' ?s))) = [Open]"
    by (simp add: handler_defs store_defs)
  from join_at_limit_keeps_status[OF r c q l, of 1 8 2 9 8] r c q st show ?thesis
    by (simp add: enterprise_join_limit_def)
qed

text \<open>
  Claim C5 as the specification states it fails: the join that brings the stand of acme
  from 1 to 2 current participants, the most the handler admits, succeeds and leaves the
  status of the stand Open, not Full.
\<close>

theorem join_fills_stand_counterexample:
  "stands (snd (enterprise_join lenient_store 0 7 ''acme'' empty_db)) =
     [\<lparr>sq_id = 1, enterpriseId = ''acme'', sq_status = Open, currentParticipants = 1,
        totalProcessed = 0\<rparr>] \<and>
   succeeded (fst (enterprise_join lenient_store 1 8 ''acme''
      (snd (enterprise_join lenient_store 0 7 ''acme'' empty_db)))) \<and>
   stands (snd (enterprise_join lenient_store 1 8 ''acme''
      (snd (enterprise_join lenient_store 0 7 ''acme'' empty_db)))) =
     [\<lparr>sq_id = 1, enterpriseId = ''acme'', sq_status = Open, currentParticipants = 2,
        totalProcessed = 0\<rparr>]"
  by (simp add: handler_defs store_defs succeeded_def)

section \<open>Roles of registered users\<close>

lemmas auth_defs =
  empty_auth_db_def Auth_hashPassword_def Auth_verifyPassword_def Auth_register_def
  Auth_login_def Auth_logout_def Auth_changeUserRole_def authMiddleware_def register_route_def
  login_route_def logout_route_def change_role_handler_def change_role_route_def
  enterprise_create_handler_def enterprise_create_route_def startServer_def fresh_id_def Let_def

lemma register_route_cases:
  "register_route kdf rnd uname password client_role st =
     (case find (\<lambda>u. username u = uname) (users st) of
        Some existingUser \<Rightarrow> (AuthStatus 400 ''Username already exists'', st)
      | None \<Rightarrow>
          (Registered (fresh_id (map u_id (users st))),
           st\<lparr>users := users st @
                [\<lparr>u_id = fresh_id (map u_id (users st)), username = uname,
                   passwordHash = kdf password rnd, salt = rnd, role = ''Participant''\<rparr>]\<rparr>))"
  by (simp add: register_route_def Auth_register_def Auth_hashPassword_def Let_def
           split: option.splits)

lemma change_role_handler_updated:
  assumes "fst (change_role_handler req_user i newRole st) = RoleUpdated"
  shows "(newRole = ''Admin'' \<or> newRole = ''Organizer'') \<and>
         (\<exists>admin. req_user = Some admin \<and> role admin = ''Admin'')"
  using assms
  by (auto simp: change_role_handler_def split: option.splits if_splits sum.splits)

text \<open>No session is ever joined to a user: \<open>authMiddleware\<close> leaves \<open>req.user\<close> null.\<close>

lemma authMiddleware_unjoined:
  assumes "unjoined st" "authMiddleware now cookie st = (r, st')"
  shows "unjoined st' \<and> users st' = users st \<and> (r = Inr None \<or> (\<exists>msg. r = Inl msg))"
proof (cases cookie)
  case None
  then show ?thesis using assms by (auto simp: authMiddleware_def)
next
  case (Some sid)
  show ?thesis
  proof (cases "find (\<lambda>x. s_id x = sid) (sessions st)")
    case None
    then show ?thesis using assms Some by (auto simp: authMiddleware_def)
  next
    case f: (Some session)
    then have "session \<in> set (sessions st)" by (auto dest: find_SomeD)
    then have "sess_UserId session = None"
      using assms(1) by (auto simp: unjoined_def list_all_iff)
    then show ?thesis
      using assms Some f
      by (auto simp: authMiddleware_def unjoined_def list_all_iff split: if_splits)
  qed
qed

lemma unjoined_startServer:
  "startServer kdf rnd empty_auth_db = Some st \<Longrightarrow> unjoined st"
  by (auto simp: auth_defs unjoined_def)

lemma unjoined_register_route:
  "unjoined st \<Longrightarrow> unjoined (snd (register_route kdf rnd uname password client_role st))"
  by (auto simp: register_route_cases unjoined_def split: option.splits)

lemma unjoined_login_route:
  "unjoined st \<Longrightarrow> unjoined (snd (login_route kdf now uname password st))"
  by (auto simp: login_route_def Auth_login_def Let_def unjoined_def list_all_iff
           split: option.splits)

lemma unjoined_logout_route:
  assumes "unjoined st"
  shows "unjoined (snd (logout_route now cookie authorization st))"
proof -
  obtain r st' where a: "authMiddleware now cookie st = (r, st')" by fastforce
  from authMiddleware_unjoined[OF assms a] have "unjoined st'" by simp
  then have "unjoined (Auth_logout sid st')" for sid
    by (auto simp: Auth_logout_def unjoined_def list_all_iff)
  then show ?thesis
    using a \<open>unjoined st'\<close> by (auto simp: logout_route_def split: sum.splits option.splits)
qed

lemma change_role_route_unjoined:
  assumes "unjoined st"
  shows "fst (change_role_route now cookie i newRole st) \<noteq> RoleUpdated \<and>
         users (snd (change_role_route now cookie i newRole st)) = users st \<and>
         unjoined (snd (change_role_route now cookie i newRole st))"
proof -
  obtain r st' where a: "authMiddleware now cookie st = (r, st')" by fastforce
  from authMiddleware_unjoined[OF assms a] show ?thesis
    using a by (auto simp: change_role_route_def change_role_handler_def)
qed

lemma enterprise_create_route_unjoined:
  assumes "unjoined st"
  shows "(\<forall>n. fst (enterprise_create_route kdf rnd now cookie uname password st) \<noteq>
               EnterpriseCreated n) \<and>
         users (snd (enterprise_create_route kdf rnd now cookie uname password st)) = users st \<and>
         unjoined (snd (enterprise_create_route kdf rnd now cookie uname password st))"
proof -
  obtain r st' where a: "authMiddleware now cookie st = (r, st')" by fastforce
  from authMiddleware_unjoined[OF assms a] show ?thesis
    using a by (auto simp: enterprise_create_route_def enterprise_create_handler_def)
qed

lemma api_reachable_unjoined: "api_reachable st \<Longrightarrow> unjoined st"
  by (induction rule: api_reachable.induct)
     (simp_all add: unjoined_startServer unjoined_register_route unjoined_login_route
        unjoined_logout_route change_role_route_unjoined enterprise_create_route_unjoined)

section \<open>The queue routes behind the middleware\<close>

text \<open>
  After any sequence of requests to the routes that write users and sessions, a request
  to a queue route, with or without a session cookie, is answered 401 by
  \<open>authMiddleware\<close> or by \<open>checkRole\<close> and does not reach the handler: the queue store
  is not written. The theorems on the handlers above are about the handlers run with the
  \<open>req.user\<close> that \<open>checkRole\<close> lets through.
\<close>

lemma queue_route_unauthorized:
  assumes "api_reachable st"
  shows "\<exists>msg st'. queue_route allowedRoles handler now cookie st s = (Status401 msg, st', s)"
proof -
  obtain r st' where a: "authMiddleware now cookie st = (r, st')" by fastforce
  from authMiddleware_unjoined[OF api_reachable_unjoined[OF assms] a] show ?thesis
    using a by (auto simp: queue_route_def checkRole_def)
qed

section \<open>No request produces a user of role Enterprise\<close>

text \<open>
  Claim C10. A user registered through the register route has role Participant, whatever
  role the client supplied; the change-role handler updates a role only for a caller of
  role Admin and only to Admin or Organizer; and in every store that a sequence of
  requests to the routes writing users and sessions produces after the start of the
  server, no user has role Enterprise.
\<close>

theorem no_enterprise_role_from_api:
  "(\<forall>r. fst (register_route kdf rnd uname password client_role st) = Registered r \<longrightarrow>
      users (snd (register_route kdf rnd uname password client_role st)) =
        users st @ [\<lparr>u_id = r, username = uname, passwordHash = kdf password rnd, salt = rnd,
                      role = ''Participant''\<rparr>]) \<and>
   (fst (change_role_handler req_user i newRole st) = RoleUpdated \<longrightarrow>
      (newRole = ''Admin'' \<or> newRole = ''Organizer'') \<and>
      (\<exists>admin. req_user = Some admin \<and> role admin = ''Admin'')) \<and>
   (api_reachable st \<longrightarrow> list_all (\<lambda>u. role u \<noteq> ''Enterprise'') (users st))"
proof (intro conjI allI impI)
  fix r
  assume "fst (register_route kdf rnd uname password client_role st) = Registered r"
  then show "users (snd (register_route kdf rnd uname password client_role st)) =
        users st @ [\<lparr>u_id = r, username = uname, passwordHash = kdf password rnd, salt = rnd,
                      role = ''Participant''\<rparr>]"
    by (auto simp: register_route_cases split: option.splits)
next
  assume u: "fst (change_role_handler req_user i newRole st) = RoleUpdated"
  from change_role_handler_updated[OF u]
  show "newRole = ''Admin'' \<or> newRole = ''Organizer''"
    and "\<exists>admin. req_user = Some admin \<and> role admin = ''Admin''"
    by blast+
next
  assume "api_reachable st"
  from api_reachable_unjoined[OF this]
  show "list_all (\<lambda>u. role u \<noteq> ''Enterprise'') (users st)"
    by (simp add: unjoined_def)
qed

text \<open>
  The theorem after the start of the server and a login of the default administrator. A
  registration that asks for role Enterprise creates a Participant. The change-role
  handler, given the administrator as caller, updates a role to Organizer; the route,
  called with the administrator's session, answers 500, \<open>req.user\<close> being null, and so
  does the route that creates an enterprise: the store is unchanged and holds no user
  of role Enterprise.
\<close>

theorem no_enterprise_role_from_api_witness:
  "api_reachable
     \<lparr>users = [\<lparr>u_id = 1, username = ''admin'', passwordHash = ''admin123s0'', salt = ''s0'',
          role = ''Admin''\<rparr>],
      sessions = [\<lparr>s_id = 1, sess_userId = 1, sess_UserId = None, expiresAt = 86400100\<rparr>]\<rparr> \<and>
   register_route (\<lambda>p s. p @ s) ''s1'' ''alice'' ''pw'' (Some ''Enterprise'')
     \<lparr>users = [\<lparr>u_id = 1, username = ''admin'', passwordHash = ''admin123s0'', salt = ''s0'',
          role = ''Admin''\<rparr>],
      sessions = [\<lparr>s_id = 1, sess_userId = 1, sess_UserId = None, expiresAt = 86400100\<rparr>]\<rparr> =
     (Registered 2,
      \<lparr>users = [\<lparr>u_id = 1, username = ''admin'', passwordHash = ''admin123s0'', salt = ''s0'',
          role = ''Admin''\<rparr>,
         \<lparr>u_id = 2, username = ''alice'', passwordHash = ''pws1'', salt = ''s1'',
          role = ''Participant''\<rparr>],
       sessions = [\<lparr>s_id = 1, sess_userId = 1, sess_UserId = None, expiresAt = 86400100\<rparr>]\<rparr>) \<and>
   fst (change_role_handler
     (Some \<lparr>u_id = 1, username = ''admin'', passwordHash = ''admin123s0'', salt = ''s0'',
          role = ''Admin''\<rparr>) 1 ''Organizer''
     \<lparr>users = [\<lparr>u_id = 1, username = ''admin'', passwordHash = ''admin123s0'', salt = ''s0'',
          role = ''Admin''\<rparr>],
      sessions = [\<lparr>s_id = 1, sess_userId = 1, sess_UserId = None, expiresAt = 86400100\<rparr>]\<rparr>) = RoleUpdated \<and>
   change_role_route 200 (Some 1) 1 ''Organizer''
     \<lparr>users = [\<lparr>u_id = 1, username = ''admin'', passwordHash = ''admin123s0'', salt = ''s0'',
          role = ''Admin''\<rparr>],
      sessions = [\<lparr>s_id = 1, sess_userId = 1, sess_UserId = None, expiresAt = 86400100\<rparr>]\<rparr> =
     (Auth500,
      \<lparr>users = [\<lparr>u_id = 1, username = ''admin'', passwordHash = ''admin123s0'', salt = ''s0'',
          role = ''Admin''\<rparr>],
      sessions = [\<lparr>s_id = 1, sess_userId = 1, sess_UserId = None, expiresAt = 86400100\<rparr>]\<rparr>) \<and>
   enterprise_create_route (\<lambda>p s. p @ s) ''s2'' 200 (Some 1) ''acme'' ''pw2''
     \<lparr>users = [\<lparr>u_id = 1, username = ''admin'', passwordHash = ''admin123s0'', salt = ''s0'',
          role = ''Admin''\<rparr>],
      sessions = [\<lparr>s_id = 1, sess_userId = 1, sess_UserId = None, expiresAt = 86400100\<rparr>]\<rparr> =
     (AuthStatus 500 ''Something went wrong!'',
      \<lparr>users = [\<lparr>u_id = 1, username = ''admin'', passwordHash = ''admin123s0'', salt = ''s0'',
          role = ''Admin''\<rparr>],
      sessions = [\<lparr>s_id = 1, sess_userId = 1, sess_UserId = None, expiresAt = 86400100\<rparr>]\<rparr>) \<and>
   list_all (\<lambda>u. role u \<noteq> ''Enterprise'')
     (users
       \<lparr>users = [\<lparr>u_id = 1, username = ''admin'', passwordHash = ''admin123s0'', salt = ''s0'',
          role = ''Admin''\<rparr>],
      sessions = [\<lparr>s_id = 1, sess_userId = 1, sess_UserId = None, expiresAt = 86400100\<rparr>]\<rparr>)"
proof -
  let ?kdf = "\<lambda>p s. p @ s :: string"
  let ?admin = "\<lparr>u_id = 1, username = ''admin'', passwordHash = ''admin123s0'', salt = ''s0'',
          role = ''Admin''\<rparr>"
  let ?boot = "\<lparr>users = [?admin], sessions = []\<rparr>"
  let ?live = "\<lparr>users = [?admin], sessions = [\<lparr>s_id = 1, sess_userId = 1, sess_UserId = None, expiresAt = 86400100\<rparr>]\<rparr>"
  have s: "startServer ?kdf ''s0'' empty_auth_db = Some ?boot"
    by (simp add: auth_defs)
  have l: "snd (login_route ?kdf 100 ''admin'' ''admin123'' ?boot) = ?live"
    by (simp add: auth_defs)
  have r: "api_reachable ?live"
    using p_login[OF p_start[OF s], of ?kdf 100 "''admin''" "''admin123''"] l by simp
  have g: "register_route ?kdf ''s1'' ''alice'' ''pw'' (Some ''Enterprise'') ?live =
     (Registered 2,
      \<lparr>users = [?admin, \<lparr>u_id = 2, username = ''alice'', passwordHash = ''pws1'', salt = ''s1'',
          role = ''Participant''\<rparr>],
       sessions = [\<lparr>s_id = 1, sess_userId = 1, sess_UserId = None, expiresAt = 86400100\<rparr>]\<rparr>)"
    by (simp add: auth_defs)
  have c: "fst (change_role_handler (Some ?admin) 1 ''Organizer'' ?live) = RoleUpdated"
    by (simp add: auth_defs)
  have h: "change_role_route 200 (Some 1) 1 ''Organizer'' ?live = (Auth500, ?live)"
    by (simp add: auth_defs)
  have e: "enterprise_create_route ?kdf ''s2'' 200 (Some 1) ''acme'' ''pw2'' ?live =
     (AuthStatus 500 ''Something went wrong!'', ?live)"
    by (simp add: auth_defs)
  from no_enterprise_role_from_api[of ?kdf "''s1''" "''alice''" "''pw''" "Some ''Enterprise''" ?live
         "Some ?admin" 1 "''Organizer''"] r g c h e
  show ?thesis by simp
qed

end
